theory Spec2Isabelle
  imports Complex_Main
begin

section \<open>Tabular Q-learning for Mountain Car: the agent of \<^verbatim>\<open>mountain_car.py\<close>\<close>

text \<open>
  The class \<^verbatim>\<open>QAgent\<close> is embedded method by method. Mutation of \<^verbatim>\<open>self\<close> is explicit
  state passing: a method takes the agent and returns the updated one.

  Numbers. Python integers (bucket indices, actions, bucket counts) are \<^typ>\<open>int\<close>.
  Python and numpy floating-point numbers are read as exact reals, so \<open>+\<close>, \<open>*\<close> and
  \<open>/\<close> below do not round; the last section reads the exploration schedule a second time
  in IEEE-754 binary64, where rounding decides the outcome.

  Results. A method can raise (\<^verbatim>\<open>IndexError\<close> from a list or an array) and the
  boundary scan of the discretizer can run forever, so a method returns a value of
  \<open>(error + 'a) option\<close>: \<open>None\<close> when the call does not return, \<open>Some (Inl e)\<close> when it
  raises \<open>e\<close>, \<open>Some (Inr v)\<close> when it returns \<open>v\<close>.
\<close>

subsection \<open>Errors and results\<close>

datatype error =
    IndexError
  | ZeroDivisionError
  | NonFinite
    \<comment> \<open>numpy divides by a zero bucket count without raising and yields \<open>inf\<close> or \<open>nan\<close>;
        exact arithmetic has no such values, and the model stops there instead\<close>

type_synonym 'a result = "(error + 'a) option"

definition ebind :: "error + 'a \<Rightarrow> ('a \<Rightarrow> error + 'b) \<Rightarrow> error + 'b" where
  "ebind m f = (case m of Inl e \<Rightarrow> Inl e | Inr x \<Rightarrow> f x)"

definition rbind :: "'a result \<Rightarrow> ('a \<Rightarrow> 'b result) \<Rightarrow> 'b result" where
  "rbind m f = (case m of None \<Rightarrow> None | Some (Inl e) \<Rightarrow> Some (Inl e) | Some (Inr x) \<Rightarrow> f x)"

subsection \<open>Indexing a Python list or a numpy array\<close>

text \<open>
  An index \<open>i\<close> into a sequence of length \<open>n\<close> is valid when \<open>-n \<le> i < n\<close>; a negative
  index counts from the end. Anything else raises \<^verbatim>\<open>IndexError\<close>.
\<close>

definition np_norm :: "nat \<Rightarrow> int \<Rightarrow> error + nat" where
  "np_norm n i =
     (let j = (if i < 0 then i + int n else i)
      in if 0 \<le> j \<and> j < int n then Inr (nat j) else Inl IndexError)"

definition np_index :: "'a list \<Rightarrow> int \<Rightarrow> error + 'a" where
  "np_index xs i = ebind (np_norm (length xs) i) (\<lambda>j. Inr (xs ! j))"

subsection \<open>The agent\<close>

text \<open>
  The fields of \<^verbatim>\<open>QAgent\<close> that the methods below read or write. The environment
  (\<^verbatim>\<open>self.env\<close>) is external: what it returns enters the methods as arguments.
  \<^verbatim>\<open>q_table\<close> is the numpy array of shape \<open>(*discrete_sizes, actions)\<close>, a list of lists
  of rows of action values.
\<close>

record agent =
  observation_space_size :: nat
  actions :: nat
  observation_space_low :: "real list"
  observation_space_high :: "real list"
  discrete_sizes :: "int list"
  alpha :: real
  gamma :: real
  num_train_episodes :: nat
  epsilon :: real
  num_episodes_decay :: nat
  epsilon_decay :: real
  q_table :: "real list list list"
  state :: "real list"

text \<open>
  \<^verbatim>\<open>__init__\<close>: the first observation, the number of actions and the bounds come from
  the environment, the table entries from the random generator.
\<close>

definition init_agent ::
  "real list \<Rightarrow> nat \<Rightarrow> real list \<Rightarrow> real list \<Rightarrow> real list list list \<Rightarrow> agent" where
  "init_agent obs0 n lo hi tbl =
     (let eps = 1; decay_episodes = 15000 in
      \<lparr> observation_space_size = length obs0,
        actions = n,
        observation_space_low = lo,
        observation_space_high = hi,
        discrete_sizes = [25, 25],
        alpha = 1 / 10,
        gamma = 95 / 100,
        num_train_episodes = 25000,
        epsilon = eps,
        num_episodes_decay = decay_episodes,
        epsilon_decay = eps / real decay_episodes,
        q_table = tbl,
        state = obs0 \<rparr>)"

subsection \<open>The discretizer: \<^verbatim>\<open>get_state_index\<close>\<close>

text \<open>
  The inner loop
  \<^verbatim>\<open>while state[i] > l + interval_size: x += 1; l += interval_size\<close>
  with \<open>s\<close> the component \<^verbatim>\<open>state[i]\<close>. It need not terminate (take \<open>w \<le> 0\<close> and
  \<open>s > l + w\<close>), so it is a partial function and \<open>None\<close> is "does not return".
\<close>

partial_function (option) bucket_scan :: "real \<Rightarrow> real \<Rightarrow> real \<Rightarrow> int \<Rightarrow> int option" where
  "bucket_scan s l w x = (if s > l + w then bucket_scan s (l + w) w (x + 1) else Some x)"

text \<open>The body of the outer loop for one dimension \<open>i\<close>, up to the value stored in \<^verbatim>\<open>indices[i]\<close>.\<close>

definition bucket_of :: "agent \<Rightarrow> real list \<Rightarrow> nat \<Rightarrow> int result" where
  "bucket_of ag obs i =
     (case
        ebind (np_index (observation_space_low ag) (int i)) (\<lambda>l.
        ebind (np_index (observation_space_high ag) (int i)) (\<lambda>h.
        ebind (np_index (discrete_sizes ag) (int i)) (\<lambda>n.
        if n = 0 then Inl NonFinite
        else ebind (np_index obs (int i)) (\<lambda>s. Inr (s, l, (h - l) / real_of_int n)))))
      of
        Inl e \<Rightarrow> Some (Inl e)
      | Inr (s, l, interval_size) \<Rightarrow> map_option Inr (bucket_scan s l interval_size 0))"

text \<open>
  The outer loop \<^verbatim>\<open>for i in range(len(indices))\<close>, over the positions still to visit,
  with the list \<^verbatim>\<open>indices\<close> as accumulator.
\<close>

fun fill_indices :: "agent \<Rightarrow> real list \<Rightarrow> nat list \<Rightarrow> int list \<Rightarrow> int list result" where
  "fill_indices ag obs [] indices = Some (Inr indices)"
| "fill_indices ag obs (i # rest) indices =
     rbind (bucket_of ag obs i) (\<lambda>x. fill_indices ag obs rest (indices[i := x]))"

definition get_state_index :: "agent \<Rightarrow> real list \<Rightarrow> int list result" where
  "get_state_index ag obs =
     fill_indices ag obs [0..<observation_space_size ag]
       (replicate (observation_space_size ag) 0)"

subsection \<open>The value table\<close>

text \<open>\<^verbatim>\<open>q_table[i][j][a]\<close> as an expression and as the target of an assignment.\<close>

definition q_get :: "real list list list \<Rightarrow> int \<Rightarrow> int \<Rightarrow> int \<Rightarrow> error + real" where
  "q_get q i j a =
     ebind (np_index q i) (\<lambda>plane. ebind (np_index plane j) (\<lambda>row. np_index row a))"

definition q_set ::
  "real list list list \<Rightarrow> int \<Rightarrow> int \<Rightarrow> int \<Rightarrow> real \<Rightarrow> error + real list list list" where
  "q_set q i j a v =
     ebind (np_norm (length q) i) (\<lambda>i'.
     ebind (np_norm (length (q ! i')) j) (\<lambda>j'.
     ebind (np_norm (length (q ! i' ! j')) a) (\<lambda>a'.
       Inr (q[i' := (q ! i')[j' := (q ! i' ! j')[a' := v]]]))))"

subsection \<open>The update rule: \<^verbatim>\<open>update\<close>\<close>

definition update_terminal :: "agent \<Rightarrow> int list \<Rightarrow> int \<Rightarrow> real \<Rightarrow> error + agent" where
  "update_terminal ag state_dis action reward =
     ebind (np_index state_dis 0) (\<lambda>s0.
     ebind (np_index state_dis 1) (\<lambda>s1.
     ebind (q_get (q_table ag) s0 s1 action) (\<lambda>old.
     ebind (q_set (q_table ag) s0 s1 action (old * (1 - alpha ag) + alpha ag * reward)) (\<lambda>q'.
       Inr (ag\<lparr>q_table := q'\<rparr>)))))"

definition update_bootstrap ::
  "agent \<Rightarrow> int list \<Rightarrow> int \<Rightarrow> real \<Rightarrow> int list \<Rightarrow> error + agent" where
  "update_bootstrap ag state_dis action reward next_state_dis =
     ebind (np_index next_state_dis 0) (\<lambda>n0.
     ebind (np_index next_state_dis 1) (\<lambda>n1.
     ebind (q_get (q_table ag) n0 n1 0) (\<lambda>v0.
     ebind (q_get (q_table ag) n0 n1 1) (\<lambda>v1.
     ebind (q_get (q_table ag) n0 n1 2) (\<lambda>v2.
     let max_rew = max v0 (max v1 v2) in
     ebind (np_index state_dis 0) (\<lambda>s0.
     ebind (np_index state_dis 1) (\<lambda>s1.
     ebind (q_get (q_table ag) s0 s1 action) (\<lambda>old.
     ebind (q_set (q_table ag) s0 s1 action
              (old * (1 - alpha ag) + alpha ag * (reward + gamma ag * max_rew))) (\<lambda>q'.
       Inr (ag\<lparr>q_table := q'\<rparr>))))))))))"

definition update :: "agent \<Rightarrow> real list \<Rightarrow> int \<Rightarrow> real \<Rightarrow> real list \<Rightarrow> bool \<Rightarrow> agent result" where
  "update ag obs action reward next_obs is_terminal =
     rbind (get_state_index ag obs) (\<lambda>state_dis.
       if is_terminal then Some (update_terminal ag state_dis action reward)
       else rbind (get_state_index ag next_obs) (\<lambda>next_state_dis.
         Some (update_bootstrap ag state_dis action reward next_state_dis)))"

subsection \<open>The policy: \<^verbatim>\<open>greedy_action\<close> and \<^verbatim>\<open>get_action\<close>\<close>

definition greedy_pick :: "agent \<Rightarrow> int list \<Rightarrow> error + int" where
  "greedy_pick ag ind_state =
     ebind (np_index ind_state 0) (\<lambda>i0.
     ebind (np_index ind_state 1) (\<lambda>i1.
     ebind (q_get (q_table ag) i0 i1 0) (\<lambda>m0.
     ebind (q_get (q_table ag) i0 i1 1) (\<lambda>v1.
     let (m, u) = (if v1 > m0 then (v1, 1) else (m0, 0)) in
     ebind (q_get (q_table ag) i0 i1 2) (\<lambda>v2.
       Inr (if v2 > m then 2 else u))))))"

definition greedy_action :: "agent \<Rightarrow> real list \<Rightarrow> int result" where
  "greedy_action ag obs =
     rbind (get_state_index ag obs) (\<lambda>ind_state. Some (greedy_pick ag ind_state))"

text \<open>
  \<^verbatim>\<open>get_action\<close> draws \<^verbatim>\<open>random.random()\<close> and, below \<open>epsilon\<close>,
  \<^verbatim>\<open>random.randint(0,2)\<close>; the two draws are the arguments \<open>rand\<close> and \<open>randint\<close>.
\<close>

definition get_action :: "agent \<Rightarrow> real \<Rightarrow> int \<Rightarrow> int result" where
  "get_action ag rand randint =
     (if rand < epsilon ag then Some (Inr randint) else greedy_action ag (state ag))"

subsection \<open>The episode driver: \<^verbatim>\<open>env_step\<close> and \<^verbatim>\<open>train\<close>\<close>

text \<open>
  The environment's answer to \<^verbatim>\<open>env.step(action)\<close>: next state, reward, terminated,
  truncated (the info dictionary is not used). The environment itself is the function
  \<open>step\<close> from the action to the answer.
\<close>

type_synonym reply = "real list \<times> real \<times> bool \<times> bool"

definition env_step :: "agent \<Rightarrow> real \<Rightarrow> int \<Rightarrow> (int \<Rightarrow> reply) \<Rightarrow> (agent \<times> bool) result" where
  "env_step ag rand randint step =
     rbind (get_action ag rand randint) (\<lambda>action.
       case step action of (next_state, reward, terminated, truncated) \<Rightarrow>
         rbind (update ag (state ag) action reward next_state (terminated \<and> \<not> truncated))
           (\<lambda>ag'. Some (Inr (ag'\<lparr>state := next_state\<rparr>, terminated \<or> truncated))))"

text \<open>
  The end of an episode in \<^verbatim>\<open>train\<close>: the environment is reset to \<open>obs0\<close> and epsilon
  decays.
\<close>

definition end_episode :: "agent \<Rightarrow> real list \<Rightarrow> agent" where
  "end_episode ag obs0 =
     ag\<lparr>state := obs0, epsilon := max 0 (epsilon ag - epsilon_decay ag)\<rparr>"

text \<open>
  The loop \<^verbatim>\<open>while not done: done = self.env_step()\<close> of one episode. The random draws
  and the environment's behaviour at each step are given as a list; when the list ends
  before the environment reports the end of the episode, the loop has not returned.
\<close>

type_synonym step_input = "real \<times> int \<times> (int \<Rightarrow> reply)"

fun run_episode :: "agent \<Rightarrow> step_input list \<Rightarrow> agent result" where
  "run_episode ag [] = None"
| "run_episode ag ((rand, randint, step) # rest) =
     rbind (env_step ag rand randint step)
       (\<lambda>(ag', fin). if fin then Some (Inr ag') else run_episode ag' rest)"

text \<open>
  The episodes of \<^verbatim>\<open>train\<close>, one list entry per episode: its steps and the observation
  of the reset that follows. Printing the episode number and the evaluation run
  \<^verbatim>\<open>agent_eval\<close>, which plays on an environment of its own and assigns no field of the
  agent, are left out.
\<close>

fun train_episodes :: "agent \<Rightarrow> (step_input list \<times> real list) list \<Rightarrow> agent result" where
  "train_episodes ag [] = Some (Inr ag)"
| "train_episodes ag ((steps, obs0) # rest) =
     rbind (run_episode ag steps) (\<lambda>ag'. train_episodes (end_episode ag' obs0) rest)"

subsection \<open>The exploration schedule in IEEE-754 binary64\<close>

text \<open>
  Python evaluates \<^verbatim>\<open>self.epsilon / self.num_episodes_decay\<close> and
  \<^verbatim>\<open>self.epsilon - self.epsilon_decay\<close> on floats: each operation returns the binary64
  number nearest to the exact result, ties to the even significand. A float is
  represented here by a pair \<open>(m, e)\<close> of integers with value \<open>m * 2 ^ e\<close>, and rounding
  keeps the 53 leading bits of \<open>m\<close>. Overflow and subnormal numbers are left out: the
  values of the schedule lie between \<open>2 ^ -70\<close> and 1.
\<close>

type_synonym dyadic = "int \<times> int"

definition fl_value :: "dyadic \<Rightarrow> real" where
  "fl_value d =
     (case d of (m, e) \<Rightarrow> if 0 \<le> e then of_int m * 2 ^ nat e else of_int m / 2 ^ nat (- e))"

text \<open>The multiple of \<open>2 ^ sh\<close> nearest to \<open>x\<close>, a tie going to the even multiple.\<close>

definition round_shift :: "nat \<Rightarrow> int \<Rightarrow> int" where
  "round_shift sh x =
     (let b = 2 ^ sh; q = x div b; r = x mod b
      in (if b < 2 * r \<or> (2 * r = b \<and> odd q) then q + 1 else q) * b)"

text \<open>Rounding \<open>x \<ge> 0\<close> to 53 significant bits: the first \<open>sh\<close> with \<open>x < 2 ^ (53 + sh)\<close>.\<close>

function round_from :: "nat \<Rightarrow> int \<Rightarrow> int" where
  "round_from sh x = (if x < 2 ^ (53 + sh) then round_shift sh x else round_from (Suc sh) x)"
  by pat_completeness auto
termination
proof (relation "measure (\<lambda>(sh, x). nat x - sh)", goal_cases)
  case 1 show ?case by simp
next
  case (2 sh x)
  have "int sh < 2 ^ sh" by (rule of_nat_less_two_power)
  also have "\<dots> \<le> 2 ^ (53 + sh)" by (simp add: power_increasing)
  also from 2 have "\<dots> \<le> x" by simp
  finally show ?case by simp
qed

declare round_from.simps [simp del]

definition round53 :: "int \<Rightarrow> int" where
  "round53 x = (if x < 0 then - round_from 0 (- x) else round_from 0 x)"

text \<open>Float subtraction: the exact difference at the smaller exponent, rounded.\<close>

definition fl_sub :: "dyadic \<Rightarrow> dyadic \<Rightarrow> dyadic" where
  "fl_sub a b =
     (case (a, b) of ((m1, e1), (m2, e2)) \<Rightarrow>
        let e = min e1 e2
        in (round53 (m1 * 2 ^ nat (e1 - e) - m2 * 2 ^ nat (e2 - e)), e))"

text \<open>
  True division \<^verbatim>\<open>p / q\<close> of two Python integers: the quotient is scaled until it has
  at least 56 bits, its last bit records a non-zero remainder, and the result is rounded.
\<close>

function scale_for :: "nat \<Rightarrow> int \<Rightarrow> int \<Rightarrow> nat" where
  "scale_for k p q = (if p \<le> 0 \<or> 2 ^ 55 * q \<le> p * 2 ^ k then k else scale_for (Suc k) p q)"
  by pat_completeness auto
termination
proof (relation "measure (\<lambda>(k, p, q). 55 + nat q - k)", goal_cases)
  case 1 show ?case by simp
next
  case (2 k p q)
  then have p: "1 \<le> p" and lt: "p * 2 ^ k < 2 ^ 55 * q" by simp_all
  have "(2::int) ^ k \<le> p * 2 ^ k" using p by simp
  also note lt
  also have "2 ^ 55 * q < 2 ^ 55 * 2 ^ nat q"
  proof -
    have "q \<le> int (nat q)" by simp
    also have "int (nat q) < 2 ^ nat q" by (rule of_nat_less_two_power)
    finally show ?thesis by simp
  qed
  finally have "(2::int) ^ k < 2 ^ (55 + nat q)" by (simp add: power_add)
  then have "k < 55 + nat q" by (simp only: power_strict_increasing_iff)
  then show ?case by simp
qed

declare scale_for.simps [simp del]

definition fl_div_int :: "int \<Rightarrow> int \<Rightarrow> error + dyadic" where
  "fl_div_int p q =
     (if q = 0 then Inl ZeroDivisionError
      else
        let a = \<bar>p\<bar>; b = \<bar>q\<bar>; k = scale_for 0 a b; n = a * 2 ^ k;
            m = 2 * (n div b) + (if n mod b = 0 then 0 else 1)
        in Inr (sgn p * sgn q * round53 m, - int k - 1))"

text \<open>\<^verbatim>\<open>max(0, x)\<close> returns \<open>x\<close> when \<open>x > 0\<close> and the integer 0 otherwise.\<close>

definition fl_max0 :: "dyadic \<Rightarrow> dyadic" where
  "fl_max0 a = (if 0 < fst a then a else (0, 0))"

text \<open>
  Line 156, \<^verbatim>\<open>self.epsilon = max(0, self.epsilon - self.epsilon_decay)\<close>, with \<open>d\<close> the
  decay step and \<open>e\<close> the current epsilon; then \<open>n\<close> episodes; then the whole schedule from
  the constructor's \<^verbatim>\<open>epsilon = 1\<close> and \<^verbatim>\<open>epsilon_decay = 1 / 15000\<close>.
\<close>

definition decay_b64 :: "dyadic \<Rightarrow> dyadic \<Rightarrow> dyadic" where
  "decay_b64 d e = fl_max0 (fl_sub e d)"

fun epsilon_b64 :: "nat \<Rightarrow> dyadic \<Rightarrow> dyadic \<Rightarrow> dyadic" where
  "epsilon_b64 0 d e = e"
| "epsilon_b64 (Suc n) d e = epsilon_b64 n d (decay_b64 d e)"

definition epsilon_after_b64 :: "nat \<Rightarrow> error + dyadic" where
  "epsilon_after_b64 n = ebind (fl_div_int 1 15000) (\<lambda>d. Inr (epsilon_b64 n d (1, 0)))"

subsection \<open>Well-formed agents and observations\<close>

text \<open>
  The bounds and the bucket counts have one entry per observation dimension, and every
  bucket count is at least 1.
\<close>

definition wf_discretizer :: "agent \<Rightarrow> bool" where
  "wf_discretizer ag =
     (length (observation_space_low ag) = observation_space_size ag \<and>
      length (observation_space_high ag) = observation_space_size ag \<and>
      length (discrete_sizes ag) = observation_space_size ag \<and>
      list_all (\<lambda>n. 1 \<le> n) (discrete_sizes ag))"



text \<open>
  The table as \<^verbatim>\<open>__init__\<close> builds it for Mountain Car: two observation dimensions,
  three actions, shape \<open>discrete_sizes[0] \<times> discrete_sizes[1] \<times> 3\<close>.
\<close>

definition wf_table :: "agent \<Rightarrow> bool" where
  "wf_table ag =
     (wf_discretizer ag \<and> observation_space_size ag = 2 \<and> actions ag = 3 \<and>
      int (length (q_table ag)) = discrete_sizes ag ! 0 \<and>
      list_all (\<lambda>plane. int (length plane) = discrete_sizes ag ! 1 \<and>
                         list_all (\<lambda>row. length row = 3) plane) (q_table ag))"

text \<open>The indices of a cell of the table, and the row of action values stored there.\<close>

definition valid_cell :: "agent \<Rightarrow> int \<Rightarrow> int \<Rightarrow> bool" where
  "valid_cell ag i j = (0 \<le> i \<and> i < discrete_sizes ag ! 0 \<and> 0 \<le> j \<and> j < discrete_sizes ag ! 1)"

definition q_row :: "real list list list \<Rightarrow> int \<Rightarrow> int \<Rightarrow> error + real list" where
  "q_row q i j = ebind (np_index q i) (\<lambda>plane. np_index plane j)"

subsection \<open>The closed form of the boundary scan\<close>

text \<open>
  The width of a bucket in dimension \<open>i\<close>, and the number of boundaries
  \<open>l + w, l + 2 * w, \<dots>\<close> strictly below \<open>s\<close>.
\<close>

definition interval_size :: "agent \<Rightarrow> nat \<Rightarrow> real" where
  "interval_size ag i =
     (observation_space_high ag ! i - observation_space_low ag ! i)
       / real_of_int (discrete_sizes ag ! i)"



subsection \<open>A small agent to run the methods on\<close>

text \<open>
  The constructor's hyperparameters, on a \<open>2 \<times> 2\<close> grid over \<open>[0, 2] \<times> [-1, 1]\<close>
  with three actions.
\<close>

definition demo_agent :: agent where
  "demo_agent =
     (init_agent [1 / 2, 0] 3 [0, - 1] [2, 1]
        [[[5, 0, 0], [1, 2, 0]], [[3, 3, 1], [0, 0, 0]]])
     \<lparr>discrete_sizes := [2, 2]\<rparr>"



section \<open>Results and indexing\<close>

lemma ebind_simps [simp]:
  "ebind (Inl e) f = Inl e"
  "ebind (Inr x) f = f x"
  by (simp_all add: ebind_def)

lemma rbind_simps [simp]:
  "rbind None g = None"
  "rbind (Some (Inl e)) g = Some (Inl e)"
  "rbind (Some (Inr x)) g = g x"
  by (simp_all add: rbind_def)

lemma rbind_Inr:
  "rbind m f = Some (Inr y) \<Longrightarrow> \<exists>x. m = Some (Inr x) \<and> f x = Some (Inr y)"
  by (auto simp: rbind_def split: option.splits sum.splits)


lemma np_index_int: "0 \<le> i \<Longrightarrow> i < int (length xs) \<Longrightarrow> np_index xs i = Inr (xs ! nat i)"
  by (simp add: np_index_def np_norm_def ebind_def)


section \<open>The discretizer\<close>

subsection \<open>The scan computes its closed form\<close>









subsection \<open>Properties of the closed form\<close>









subsection \<open>The discretizer on well-formed agents\<close>









subsection \<open>What holds whenever the discretizer returns\<close>





subsection \<open>Running the discretizer on the small agent\<close>

lemma demo_fields:
  "observation_space_size demo_agent = 2"
  "observation_space_low demo_agent = [0, - 1]"
  "observation_space_high demo_agent = [2, 1]"
  "discrete_sizes demo_agent = [2, 2]"
  "q_table demo_agent = [[[5, 0, 0], [1, 2, 0]], [[3, 3, 1], [0, 0, 0]]]"
  "alpha demo_agent = 1 / 10"
  "gamma demo_agent = 95 / 100"
  "actions demo_agent = 3"
  "epsilon demo_agent = 1"
  "state demo_agent = [1 / 2, 0]"
  by (simp_all add: demo_agent_def init_agent_def)

lemma demo_eval:
  "get_state_index demo_agent [1, 0] = Some (Inr [0, 0])"
  "get_state_index demo_agent [1 / 2, 0] = Some (Inr [0, 0])"
  "get_state_index demo_agent [3 / 2, 1] = Some (Inr [1, 1])"
  "get_state_index demo_agent [1 / 2, - (1 / 2)] = Some (Inr [0, 0])"
  "get_state_index demo_agent [1 / 2, 1 / 2] = Some (Inr [0, 1])"
  "get_state_index demo_agent [3 / 2, - (1 / 2)] = Some (Inr [1, 0])"
  "get_state_index demo_agent [5 / 2, 0] = Some (Inr [2, 0])"
  "get_state_index demo_agent [- 3, 5] = Some (Inr [0, 5])"
  by (simp_all add: get_state_index_def demo_fields bucket_of_def np_index_def np_norm_def
      bucket_scan.simps upt_rec numeral_2_eq_2)





subsection \<open>The claims about the discretizer\<close>













section \<open>The value table, the update rule and the policy\<close>

subsection \<open>Reading and writing cells of a well-formed table\<close>

lemma wf_table_lengths:
  assumes wf: "wf_table ag" and c: "valid_cell ag i j"
  shows "nat i < length (q_table ag)"
    and "nat j < length (q_table ag ! nat i)"
    and "length (q_table ag ! nat i ! nat j) = 3"
proof -
  from wf have len: "int (length (q_table ag)) = discrete_sizes ag ! 0"
    and all: "list_all (\<lambda>plane. int (length plane) = discrete_sizes ag ! 1 \<and>
                         list_all (\<lambda>row. length row = 3) plane) (q_table ag)"
    by (simp_all add: wf_table_def)
  from c len show i: "nat i < length (q_table ag)" unfolding valid_cell_def by linarith
  from all i have plane: "int (length (q_table ag ! nat i)) = discrete_sizes ag ! 1"
    and rows: "list_all (\<lambda>row. length row = 3) (q_table ag ! nat i)"
    by (simp_all add: list_all_length)
  from c plane show j: "nat j < length (q_table ag ! nat i)" unfolding valid_cell_def by linarith
  from rows j show "length (q_table ag ! nat i ! nat j) = 3" by (simp add: list_all_length)
qed

lemma q_row_valid:
  assumes wf: "wf_table ag" and c: "valid_cell ag i j"
  shows "q_row (q_table ag) i j = Inr (q_table ag ! nat i ! nat j)"
  using wf_table_lengths[OF wf c] c
  by (simp add: q_row_def np_index_int valid_cell_def)






lemma np_index_pair [simp]: "np_index [x, y] 0 = Inr x" "np_index [x, y] 1 = Inr y"
  by (simp_all add: np_index_def np_norm_def)



lemma q_get_updated:
  assumes wf: "wf_table ag" and c: "valid_cell ag i j" and a: "0 \<le> a" "a < 3"
  shows "q_get ((q_table ag)[nat i := (q_table ag ! nat i)[nat j :=
            (q_table ag ! nat i ! nat j)[nat a := v]]]) i j a = Inr v"
  using wf_table_lengths[OF wf c] c a
  by (simp add: q_get_def np_index_int valid_cell_def)

subsection \<open>What holds whenever \<^verbatim>\<open>update\<close> returns\<close>



lemma np_index_norm: "np_norm (length xs) i = Inr k \<Longrightarrow> np_index xs i = Inr (xs ! k)"
  by (simp add: np_index_def)
















lemma bucket_of_q_table [simp]: "bucket_of (ag\<lparr>q_table := q\<rparr>) obs i = bucket_of ag obs i"
  by (simp add: bucket_of_def)

lemma fill_indices_q_table [simp]:
  "fill_indices (ag\<lparr>q_table := q\<rparr>) obs ps indices = fill_indices ag obs ps indices"
  by (induction ps arbitrary: indices) simp_all

lemma get_state_index_q_table [simp]:
  "get_state_index (ag\<lparr>q_table := q\<rparr>) obs = get_state_index ag obs"
  by (simp add: get_state_index_def)






subsection \<open>The claims about \<^verbatim>\<open>update\<close>\<close>











subsection \<open>The greedy action\<close>







subsection \<open>One step of the episode driver\<close>

text \<open>
  Claim C7. \<^verbatim>\<open>env_step\<close> calls \<^verbatim>\<open>update\<close> with \<^verbatim>\<open>is_terminal\<close> equal to
  \<open>terminated \<and> \<not> truncated\<close>. A truncated step therefore calls it with \<^verbatim>\<open>is_terminal\<close>
  false, whatever \<open>terminated\<close> is, and only a step that is terminated and not truncated
  takes the branch without the bootstrapped term.
\<close>

theorem env_step_is_terminal:
  assumes "get_action ag rand randint = Some (Inr action)"
    and "step action = (next_state, reward, terminated, truncated)"
  shows "env_step ag rand randint step =
           rbind (update ag (state ag) action reward next_state (terminated \<and> \<not> truncated))
             (\<lambda>ag'. Some (Inr (ag'\<lparr>state := next_state\<rparr>, terminated \<or> truncated))) \<and>
         (truncated \<longrightarrow> env_step ag rand randint step =
           rbind (update ag (state ag) action reward next_state False)
             (\<lambda>ag'. Some (Inr (ag'\<lparr>state := next_state\<rparr>, True)))) \<and>
         (terminated \<and> \<not> truncated \<longrightarrow> env_step ag rand randint step =
           rbind (update ag (state ag) action reward next_state True)
             (\<lambda>ag'. Some (Inr (ag'\<lparr>state := next_state\<rparr>, True))))"
  using assms by (simp add: env_step_def)

lemma demo_env_step:
  "env_step demo_agent 0 0 (\<lambda>a. ([1 / 2, 1 / 2], 1, False, True)) =
     Some (Inr (demo_agent\<lparr>q_table := [[[479 / 100, 0, 0], [1, 2, 0]], [[3, 3, 1], [0, 0, 0]]],
                            state := [1 / 2, 1 / 2]\<rparr>, True))"
  by (simp add: env_step_def get_action_def update_def demo_eval update_bootstrap_def q_get_def
      q_set_def np_index_def np_norm_def demo_fields)

theorem env_step_is_terminal_witness:
  "get_action demo_agent 0 0 = Some (Inr 0) \<and>
   (\<lambda>a::int. ([1 / 2, 1 / 2 :: real], 1 :: real, False, True)) 0 = ([1 / 2, 1 / 2], 1, False, True) \<and>
   env_step demo_agent 0 0 (\<lambda>a. ([1 / 2, 1 / 2], 1, False, True)) =
     rbind (update demo_agent (state demo_agent) 0 1 [1 / 2, 1 / 2] False)
       (\<lambda>ag'. Some (Inr (ag'\<lparr>state := [1 / 2, 1 / 2]\<rparr>, True))) \<and>
   env_step demo_agent 0 0 (\<lambda>a. ([1 / 2, 1 / 2], 1, False, True)) =
     Some (Inr (demo_agent\<lparr>q_table := [[[479 / 100, 0, 0], [1, 2, 0]], [[3, 3, 1], [0, 0, 0]]],
                            state := [1 / 2, 1 / 2]\<rparr>, True))"
  using env_step_is_terminal[of demo_agent 0 0 0 "\<lambda>a. ([1 / 2, 1 / 2], 1, False, True)"
      "[1 / 2, 1 / 2]" 1 False True] demo_env_step
  by (simp add: get_action_def demo_fields)

subsection \<open>Observations outside the bounds\<close>





















section \<open>The exploration schedule\<close>

subsection \<open>In exact arithmetic\<close>

text \<open>
  No step of an episode assigns \<^verbatim>\<open>epsilon\<close> or \<^verbatim>\<open>epsilon_decay\<close>; the end of an episode
  subtracts the decay step and floors at 0. Over the reals, \<open>n\<close> completed episodes leave
  \<open>max 0 (epsilon - n * epsilon_decay)\<close>, which for the constructor's values is 0 from
  episode 15000 on.
\<close>

lemma update_terminal_fields:
  "update_terminal ag sd a r = Inr ag' \<Longrightarrow> \<exists>q. ag' = ag\<lparr>q_table := q\<rparr>"
  unfolding update_terminal_def ebind_def by (auto split: sum.splits)

lemma update_bootstrap_fields:
  "update_bootstrap ag sd a r nd = Inr ag' \<Longrightarrow> \<exists>q. ag' = ag\<lparr>q_table := q\<rparr>"
  unfolding update_bootstrap_def ebind_def Let_def by (auto split: sum.splits)

lemma update_fields:
  assumes "update ag obs a r nobs t = Some (Inr ag')"
  shows "\<exists>q. ag' = ag\<lparr>q_table := q\<rparr>"
  using assms unfolding update_def rbind_def
  by (auto split: option.splits sum.splits if_splits
      dest: update_terminal_fields update_bootstrap_fields)

lemma env_step_epsilon:
  assumes "env_step ag rand randint step = Some (Inr (ag', fin))"
  shows "epsilon ag' = epsilon ag \<and> epsilon_decay ag' = epsilon_decay ag"
proof -
  from assms obtain a where
    u: "(case step a of (next_state, reward, terminated, truncated) \<Rightarrow>
         rbind (update ag (state ag) a reward next_state (terminated \<and> \<not> truncated))
           (\<lambda>ag'. Some (Inr (ag'\<lparr>state := next_state\<rparr>, terminated \<or> truncated))))
        = Some (Inr (ag', fin))"
    unfolding env_step_def by (blast dest: rbind_Inr)
  obtain ns r te tr where s: "step a = (ns, r, te, tr)" by (cases "step a")
  from u obtain ag1 where
    "update ag (state ag) a r ns (te \<and> \<not> tr) = Some (Inr ag1)"
    and "Some (Inr (ag1\<lparr>state := ns\<rparr>, te \<or> tr)) = Some (Inr (ag', fin))"
    unfolding s prod.case by (blast dest: rbind_Inr)
  with update_fields[of ag "state ag" a r ns "te \<and> \<not> tr" ag1] show ?thesis by auto
qed

lemma run_episode_epsilon:
  "run_episode ag steps = Some (Inr ag') \<Longrightarrow>
   epsilon ag' = epsilon ag \<and> epsilon_decay ag' = epsilon_decay ag"
proof (induction steps arbitrary: ag)
  case Nil
  then show ?case by simp
next
  case (Cons x steps)
  obtain rand randint step where x: "x = (rand, randint, step)" by (cases x)
  from Cons.prems obtain p where
    e': "env_step ag rand randint step = Some (Inr p)"
    and r': "(case p of (ag', fin) \<Rightarrow> if fin then Some (Inr ag') else run_episode ag' steps)
             = Some (Inr ag')"
    unfolding x run_episode.simps by (blast dest: rbind_Inr)
  obtain ag1 fin where p: "p = (ag1, fin)" by (cases p)
  from e' r' have e: "env_step ag rand randint step = Some (Inr (ag1, fin))"
    and r: "if fin then ag' = ag1 else run_episode ag1 steps = Some (Inr ag')"
    unfolding p by (simp_all split: if_splits)
  note env_step_epsilon[OF e]
  moreover have "epsilon ag' = epsilon ag1 \<and> epsilon_decay ag' = epsilon_decay ag1"
    using r Cons.IH[of ag1] by (cases fin) simp_all
  ultimately show ?case by simp
qed

lemma max_decay:
  fixes e d k :: real
  assumes "0 \<le> d" and "0 \<le> k"
  shows "max 0 (max 0 (e - d) - k * d) = max 0 (e - (1 + k) * d)"
proof -
  have kd: "0 \<le> k * d" using assms by simp
  show ?thesis
  proof (cases "d \<le> e")
    case True
    then show ?thesis by (simp add: algebra_simps)
  next
    case False
    with kd have "e - (1 + k) * d \<le> 0" by (simp add: algebra_simps)
    with False kd show ?thesis by simp
  qed
qed

lemma train_episodes_epsilon:
  assumes "0 \<le> epsilon_decay ag" and "0 \<le> epsilon ag"
    and "train_episodes ag eps = Some (Inr ag')"
  shows "epsilon ag' = max 0 (epsilon ag - real (length eps) * epsilon_decay ag) \<and>
         epsilon_decay ag' = epsilon_decay ag"
  using assms
proof (induction eps arbitrary: ag)
  case Nil
  then show ?case by simp
next
  case (Cons x eps)
  obtain steps obs0 where x: "x = (steps, obs0)" by (cases x)
  from Cons.prems(3) obtain ag1 where
    r: "run_episode ag steps = Some (Inr ag1)"
    and t: "train_episodes (end_episode ag1 obs0) eps = Some (Inr ag')"
    unfolding x train_episodes.simps by (blast dest: rbind_Inr)
  note k = run_episode_epsilon[OF r]
  let ?ag2 = "end_episode ag1 obs0"
  have d2: "epsilon_decay ?ag2 = epsilon_decay ag" and e2: "epsilon ?ag2 = max 0 (epsilon ag - epsilon_decay ag)"
    using k by (simp_all add: end_episode_def)
  have "epsilon ag' = max 0 (epsilon ?ag2 - real (length eps) * epsilon_decay ?ag2) \<and>
         epsilon_decay ag' = epsilon_decay ?ag2"
    by (rule Cons.IH[OF _ _ t]) (simp_all add: d2 e2 Cons.prems(1))
  then show ?case
    unfolding d2 e2 using max_decay[OF Cons.prems(1), of "real (length eps)" "epsilon ag"]
    by (simp add: algebra_simps)
qed

lemma train_episodes_epsilon_init:
  assumes "train_episodes (init_agent obs0 n lo hi tbl) eps = Some (Inr ag')"
  shows "epsilon ag' = max 0 (1 - real (length eps) / 15000)"
    and "15000 \<le> length eps \<Longrightarrow> epsilon ag' = 0"
proof -
  have "epsilon ag' = max 0 (epsilon (init_agent obs0 n lo hi tbl)
          - real (length eps) * epsilon_decay (init_agent obs0 n lo hi tbl))"
    using train_episodes_epsilon[OF _ _ assms] by (simp add: init_agent_def)
  then show e: "epsilon ag' = max 0 (1 - real (length eps) / 15000)"
    by (simp add: init_agent_def)
  show "epsilon ag' = 0" if "15000 \<le> length eps"
    using that unfolding e by simp
qed

subsection \<open>In binary64\<close>

lemma round_shift_dvd: "2 ^ sh dvd round_shift sh x"
  by (simp add: round_shift_def Let_def)

lemma round_shift_add:
  assumes "2 ^ sh dvd E" and "2 * (y mod 2 ^ sh) \<noteq> 2 ^ sh"
  shows "round_shift sh (E + y) = E + round_shift sh y"
proof -
  from assms(1) obtain k where E: "E = 2 ^ sh * k" ..
  have d: "(E + y) div 2 ^ sh = k + y div 2 ^ sh" and m: "(E + y) mod 2 ^ sh = y mod 2 ^ sh"
    by (simp_all add: E)
  show ?thesis
    using assms(2) unfolding round_shift_def Let_def d m
    by (simp add: E algebra_simps)
qed

lemma round_from_skip:
  assumes "2 ^ (52 + sh) \<le> x" and "k \<le> sh"
  shows "round_from k x = round_from sh x"
  using assms(2)
proof (induction "sh - k" arbitrary: k)
  case 0
  then show ?case by simp
next
  case (Suc n)
  then have k: "k < sh" by simp
  then have "53 + k \<le> 52 + sh" by simp
  then have "(2::int) ^ (53 + k) \<le> 2 ^ (52 + sh)" by (rule power_increasing) simp
  with assms(1) have n: "\<not> x < 2 ^ (53 + k)" by linarith
  have "round_from k x = (if x < 2 ^ (53 + k) then round_shift k x else round_from (Suc k) x)"
    by (rule round_from.simps)
  with n have "round_from k x = round_from (Suc k) x" by (simp only: if_False)
  also have "\<dots> = round_from sh x" using Suc k by (intro Suc(1)) simp_all
  finally show ?case .
qed

lemma round53_binade:
  assumes "2 ^ (52 + sh) \<le> x" and "x < 2 ^ (53 + sh)"
  shows "round53 x = round_shift sh x"
proof -
  have "(0::int) < 2 ^ (52 + sh)" by simp
  with assms(1) have "0 \<le> x" by linarith
  then have "round53 x = round_from 0 x" by (simp add: round53_def)
  also have "\<dots> = round_from sh x" by (rule round_from_skip[OF assms(1)]) simp
  also have "\<dots> = (if x < 2 ^ (53 + sh) then round_shift sh x else round_from (Suc sh) x)"
    by (rule round_from.simps)
  also have "\<dots> = round_shift sh x" using assms(2) by (simp only: if_True)
  finally show ?thesis .
qed

lemma decay_in_binade:
  assumes "2 ^ sh dvd E" and "2 * ((- D) mod 2 ^ sh) \<noteq> 2 ^ sh"
    and "2 ^ (52 + sh) \<le> E - D" and "E - D < 2 ^ (53 + sh)"
    and "0 < E + round_shift sh (- D)"
  shows "decay_b64 (D, e) (E, e) = (E + round_shift sh (- D), e)"
proof -
  have "round53 (E - D) = round_shift sh (E + (- D))"
    using round53_binade[OF assms(3,4)] by simp
  also have "\<dots> = E + round_shift sh (- D)" by (rule round_shift_add[OF assms(1,2)])
  finally show ?thesis using assms(5) by (simp add: decay_b64_def fl_sub_def fl_max0_def)
qed

lemma epsilon_b64_binade:
  assumes "2 ^ sh dvd E" and "2 * ((- D) mod 2 ^ sh) \<noteq> 2 ^ sh"
    and "c = - round_shift sh (- D)" and "0 \<le> c"
    and "E - D < 2 ^ (53 + sh)"
    and "2 ^ (52 + sh) \<le> E - int n * c + c - D"
    and "0 < E - int n * c"
  shows "epsilon_b64 n (D, e) (E, e) = (E - int n * c, e)"
  using assms(1,5,6,7)
proof (induction n arbitrary: E)
  case 0
  then show ?case by simp
next
  case (Suc n)
  have c: "2 ^ sh dvd c" using round_shift_dvd[of sh "- D"] assms(3) by simp
  have nc: "0 \<le> int n * c" using assms(4) by simp
  have 1: "2 ^ (52 + sh) \<le> E - D" using Suc.prems(3) nc by (simp add: algebra_simps)
  have 2: "0 < E + round_shift sh (- D)" using Suc.prems(4) nc assms(3) by (simp add: algebra_simps)
  have step: "decay_b64 (D, e) (E, e) = (E - c, e)"
    using decay_in_binade[OF Suc.prems(1) assms(2) 1 Suc.prems(2) 2] assms(3) by simp
  have "epsilon_b64 n (D, e) (E - c, e) = (E - c - int n * c, e)"
  proof (rule Suc.IH)
    show "2 ^ sh dvd E - c" using Suc.prems(1) c by (rule dvd_diff)
    show "E - c - D < 2 ^ (53 + sh)" using Suc.prems(2) assms(4) by simp
    show "2 ^ (52 + sh) \<le> E - c - int n * c + c - D" using Suc.prems(3) by (simp add: algebra_simps)
    show "0 < E - c - int n * c" using Suc.prems(4) by (simp add: algebra_simps)
  qed
  then show ?case by (simp add: step algebra_simps)
qed

lemma epsilon_b64_add:
  "epsilon_b64 (a + b) d e = epsilon_b64 b d (epsilon_b64 a d e)"
  by (induction a arbitrary: e) simp_all

lemma epsilon_b64_numeral:
  "epsilon_b64 (numeral k) d e = epsilon_b64 (pred_numeral k) d (decay_b64 d e)"
  by (simp add: numeral_eq_Suc)

lemma div_1_15000: "fl_div_int 1 15000 = Inr (78706108047827424, - 70)"
  unfolding fl_div_int_def Let_def
  by (simp add: scale_for.simps round53_def round_from.simps round_shift_def)

lemma epsilon_decay_b64_value:
  "fl_value (78706108047827424, - 70) = 2459565876494607 / 2 ^ 65"
  by (simp add: fl_value_def)

lemma first_step:
  "decay_b64 (78706108047827424, - 70) (1, 0) =
   decay_b64 (78706108047827424, - 70) (1180591620717411303424, - 70)"
  by (simp add: decay_b64_def fl_sub_def)

lemma fl_sub_same: "fl_sub (m1, e) (m2, e) = (round53 (m1 - m2), e)"
  by (simp add: fl_sub_def)

lemma tail_steps:
  "epsilon_b64 9 (78706108047827424, - 70) (629648864489576960, - 70) = (0, 0)"
  "epsilon_b64 8 (78706108047827424, - 70) (629648864489576960, - 70) = (106957440, - 70)"
  by (simp_all add: epsilon_b64_numeral decay_b64_def fl_sub_same fl_max0_def round53_def
      round_from.simps round_shift_def)

lemma binade_runs:
  "epsilon_b64 7500 (78706108047827424, - 70) (1180591620717411303424, - 70) = (590295810358770663424, - 70)"
  "epsilon_b64 3750 (78706108047827424, - 70) (590295810358770663424, - 70) = (295147905179450343424, - 70)"
  "epsilon_b64 1875 (78706108047827424, - 70) (295147905179450343424, - 70) = (147573952589790183424, - 70)"
  "epsilon_b64 937 (78706108047827424, - 70) (147573952589790183424, - 70) = (73826329348968660992, - 70)"
  "epsilon_b64 469 (78706108047827424, - 70) (73826329348968660992, - 70) = (36913164674537824256, - 70)"
  "epsilon_b64 234 (78706108047827424, - 70) (36913164674537824256, - 70) = (18495935391346319360, - 70)"
  "epsilon_b64 117 (78706108047827424, - 70) (18495935391346319360, - 70) = (9287320749750566912, - 70)"
  "epsilon_b64 59 (78706108047827424, - 70) (9287320749750566912, - 70) = (4643660374928777216, - 70)"
  "epsilon_b64 29 (78706108047827424, - 70) (4643660374928777216, - 70) = (2361183241541780992, - 70)"
  "epsilon_b64 15 (78706108047827424, - 70) (2361183241541780992, - 70) = (1180591620824369152, - 70)"
  "epsilon_b64 7 (78706108047827424, - 70) (1180591620824369152, - 70) = (629648864489576960, - 70)"
  using epsilon_b64_binade[of 17 1180591620717411303424 78706108047827424 78706108047818752 7500 "- 70"]
        epsilon_b64_binade[of 16 590295810358770663424 78706108047827424 78706108047818752 3750 "- 70"]
        epsilon_b64_binade[of 15 295147905179450343424 78706108047827424 78706108047818752 1875 "- 70"]
        epsilon_b64_binade[of 14 147573952589790183424 78706108047827424 78706108047835136 937 "- 70"]
        epsilon_b64_binade[of 13 73826329348968660992 78706108047827424 78706108047826944 469 "- 70"]
        epsilon_b64_binade[of 12 36913164674537824256 78706108047827424 78706108047826944 234 "- 70"]
        epsilon_b64_binade[of 11 18495935391346319360 78706108047827424 78706108047826944 117 "- 70"]
        epsilon_b64_binade[of 10 9287320749750566912 78706108047827424 78706108047826944 59 "- 70"]
        epsilon_b64_binade[of 9 4643660374928777216 78706108047827424 78706108047827456 29 "- 70"]
        epsilon_b64_binade[of 8 2361183241541780992 78706108047827424 78706108047827456 15 "- 70"]
        epsilon_b64_binade[of 7 1180591620824369152 78706108047827424 78706108047827456 7 "- 70"]
  by (simp_all add: round_shift_def)

lemma epsilon_b64_15000:
  "epsilon_b64 15000 (78706108047827424, - 70) (1, 0) = (106957440, - 70)"
proof -
  let ?d = "(78706108047827424, - 70) :: dyadic"
  have "epsilon_b64 (Suc 14999) ?d (1, 0) = epsilon_b64 (Suc 14999) ?d (1180591620717411303424, - 70)"
    by (simp only: epsilon_b64.simps first_step)
  moreover have "Suc 14999 = 7500 + (3750 + (1875 + (937 + (469 + (234 + (117 + (59 + (29 + (15 + (7 + (8)))))))))))" by simp
  moreover have "(15000::nat) = 7500 + (3750 + (1875 + (937 + (469 + (234 + (117 + (59 + (29 + (15 + (7 + (8)))))))))))" by simp
  ultimately have "epsilon_b64 15000 ?d (1, 0) = epsilon_b64 (7500 + (3750 + (1875 + (937 + (469 + (234 + (117 + (59 + (29 + (15 + (7 + (8)))))))))))) ?d (1180591620717411303424, - 70)"
    by (simp only:)
  also have "\<dots> = (106957440, - 70)"
    by (simp only: epsilon_b64_add binade_runs tail_steps)
  finally show ?thesis .
qed

lemma epsilon_b64_15001:
  "epsilon_b64 15001 (78706108047827424, - 70) (1, 0) = (0, 0)"
proof -
  let ?d = "(78706108047827424, - 70) :: dyadic"
  have "epsilon_b64 (Suc 15000) ?d (1, 0) = epsilon_b64 (Suc 15000) ?d (1180591620717411303424, - 70)"
    by (simp only: epsilon_b64.simps first_step)
  moreover have "Suc 15000 = 7500 + (3750 + (1875 + (937 + (469 + (234 + (117 + (59 + (29 + (15 + (7 + (9)))))))))))" by simp
  moreover have "(15001::nat) = 7500 + (3750 + (1875 + (937 + (469 + (234 + (117 + (59 + (29 + (15 + (7 + (9)))))))))))" by simp
  ultimately have "epsilon_b64 15001 ?d (1, 0) = epsilon_b64 (7500 + (3750 + (1875 + (937 + (469 + (234 + (117 + (59 + (29 + (15 + (7 + (9)))))))))))) ?d (1180591620717411303424, - 70)"
    by (simp only:)
  also have "\<dots> = (0, 0)"
    by (simp only: epsilon_b64_add binade_runs tail_steps)
  finally show ?thesis .
qed

text \<open>
  Claim C5. Epsilon starts at 1 and every completed episode replaces it by
  \<open>max(0, epsilon - epsilon_decay)\<close>, with \<open>epsilon_decay = 1 / 15000\<close> computed once in the
  constructor. Over the reals the value after 15000 episodes is 0 (lemma
  \<open>train_episodes_epsilon_init\<close>). In the binary64 arithmetic that Python runs, the decay
  step is \<open>2459565876494607 / 2 ^ 65\<close>, the float nearest to \<open>1 / 15000\<close>, and the value
  after 15000 completed episodes is \<open>106957440 * 2 ^ -70 = 6684840 / 2 ^ 66\<close>, about
  \<open>9.06e-14\<close> and not 0; it is 0 after 15001 episodes.
\<close>

theorem epsilon_b64_after_15000:
  "epsilon_after_b64 15000 = Inr (106957440, - 70) \<and>
   fl_value (106957440, - 70) = 6684840 / 2 ^ 66 \<and>
   0 < fl_value (106957440, - 70) \<and>
   epsilon_after_b64 15001 = Inr (0, 0)"
  by (simp add: epsilon_after_b64_def div_1_15000 epsilon_b64_15000 epsilon_b64_15001
      fl_value_def)

end
